theory Spec2Isabelle
  imports Main "HOL-Library.Word" "HOL-Library.Sublist"
begin

unbundle bit_operations_syntax

section \<open>Data model of the TLS credential manager\<close>

text \<open>
  The development embeds \<^verbatim>\<open>tlsconfigbuilder.go\<close> (type \<^verbatim>\<open>TLSConfigBuilder\<close>) and, for the
  monitor life cycle, the older \<^verbatim>\<open>TLS\<close> type with a watcher. Paths, PEM buffers and DER
  encodings are byte strings. A parsed X.509 certificate is identified by its raw bytes.
\<close>

type_synonym path = string
type_synonym bytes = string
type_synonym addr = nat
type_synonym x509_cert = bytes

text \<open>\<^verbatim>\<open>tls.Certificate\<close>: the certificate chain and the private key of a loaded pair.\<close>

datatype tls_certificate = KeyPair (chain: "bytes list") (privateKey: bytes)

text \<open>
  Errors are values. \<open>LibError\<close> is an error produced by the Go standard library or by
  fsnotify; every other constructor is one \<^verbatim>\<open>fmt.Errorf\<close> site of the source, carrying the
  path it formats and the error it wraps.
\<close>

datatype error =
    LibError string
  | ErrSystemCertPool error
  | ErrReadCAFile path error
  | ErrReadCADir path error
  | ErrLoadCA path error
  | ErrParseCert error
  | ErrFileCheck path error
  | ErrIsDirectory path
  | ErrSetCertKeyFromBytes error
  | ErrServerCertLoad error
  | ErrCertNotTrusted error
  | ErrWatcherInit error
  | ErrCertReload error
  | ErrWatcher error
  | ErrGetTLSConfig error
  | ErrReloadCert error
  | ErrWatcherWatch path error
  | ErrCloseOfClosedChannel
  | ErrCloseOfNilChannel
  | ErrNilInterfaceConversion

text \<open>The type bits of \<^verbatim>\<open>fs.FileMode\<close>; a regular file has none of them set.\<close>

datatype file_type =
  Regular | Directory | Symlink | NamedPipe | Socket | Device | CharDevice | Irregular

definition IsDir :: "file_type \<Rightarrow> bool" where
  "IsDir ft = (ft = Directory)"

definition IsRegular :: "file_type \<Rightarrow> bool" where
  "IsRegular ft = (ft = Regular)"

datatype dir_entry = DirEntry (entry_Name: string) (entry_Type: file_type)

datatype pem_block = Block (block_Type: string) (block_Bytes: bytes)

text \<open>\<^verbatim>\<open>fsnotify.Event\<close> and the bits of \<^verbatim>\<open>fsnotify.Op\<close> (a \<^verbatim>\<open>uint32\<close>).\<close>

datatype fs_event = Event (event_Name: path) (event_Op: "32 word")

definition fsnotify_Create :: "32 word" where "fsnotify_Create = 1"
definition fsnotify_Write :: "32 word" where "fsnotify_Write = 2"
definition fsnotify_Remove :: "32 word" where "fsnotify_Remove = 4"
definition fsnotify_Rename :: "32 word" where "fsnotify_Rename = 8"
definition fsnotify_Chmod :: "32 word" where "fsnotify_Chmod = 16"

text \<open>
  Everything the code asks of the operating system and of its libraries is a field of
  the environment: the result each call returns on each argument. The file system can
  change between two calls, so every operation takes the environment of its own call.
\<close>

record env =
  os_Stat :: "path \<Rightarrow> error + file_type"
  os_ReadFile :: "path \<Rightarrow> error + bytes"
  os_ReadDir :: "path \<Rightarrow> error + dir_entry list"
  filepath_Join :: "path \<Rightarrow> string \<Rightarrow> path"
  filepath_Dir :: "path \<Rightarrow> path"
  pem_Decode :: "bytes \<Rightarrow> (pem_block \<times> bytes) option"
  x509_ParseCertificate :: "bytes \<Rightarrow> error + x509_cert"
  tls_LoadX509KeyPair :: "path \<Rightarrow> path \<Rightarrow> error + tls_certificate"
  tls_X509KeyPair :: "bytes \<Rightarrow> bytes \<Rightarrow> error + tls_certificate"
  x509_SystemCertPool :: "error + x509_cert list option"
  x509_ParseCertificates :: "bytes \<Rightarrow> error + x509_cert list"
  x509_Verify :: "x509_cert list \<Rightarrow> x509_cert \<Rightarrow> error option"
  fsnotify_NewWatcher :: "error option"
  fsnotify_Add :: "path \<Rightarrow> error option"

text \<open>
  \<^verbatim>\<open>TLSConfigBuilder\<close>. The pool \<open>ca\<close> is a pointer into the store of pools; \<open>cert\<close> is
  the \<^verbatim>\<open>atomic.Value\<close> holding the current pair, \<open>None\<close> before the first store;
  \<open>watcher\<close> is \<open>None\<close> for \<^verbatim>\<open>nil\<close>; \<open>doneCh\<close> is the channel \<^verbatim>\<open>done\<close>, \<open>True\<close> once it is closed.
  The mutex \<^verbatim>\<open>mu\<close> is not modelled: the operations are run one at a time.
\<close>

record TLSConfigBuilder =
  ca :: addr
  certFile :: path
  keyFile :: path
  clientAuth :: int
  insecure :: bool
  cert :: "tls_certificate option"
  watcher :: "nat option"
  doneCh :: bool

text \<open>\<^verbatim>\<open>tls.Config\<close>, the fields the builder sets. Both pools are pointers.\<close>

record tls_config =
  ClientAuth :: int
  ClientCAs :: "addr option"
  RootCAs :: "addr option"
  MinVersion :: nat
  InsecureSkipVerify :: bool
  Certificates :: "tls_certificate list"

text \<open>
  The world of one builder: the store of certificate pools, the store of configuration
  objects handed out (with the next free address), the directories each fsnotify watcher
  watches, the watchers whose goroutine is running, what was written to standard error,
  and the builder itself.
\<close>

record world =
  pools :: "addr \<Rightarrow> x509_cert list"
  configs :: "addr \<Rightarrow> tls_config option"
  next_config :: addr
  fs_watchers :: "path list list"
  goroutines :: "nat list"
  stderr :: "error list"
  tb :: TLSConfigBuilder

datatype 'a outcome = is_Returns: Returns 'a | is_Panics: Panics error

section \<open>Credential files\<close>

text \<open>\<^verbatim>\<open>FileExists\<close>: the path can be stat'ed and is not a directory.\<close>

definition FileExists :: "env \<Rightarrow> path \<Rightarrow> error option" where
  "FileExists e p =
     (case os_Stat e p of
        Inl err \<Rightarrow> Some (ErrFileCheck p err)
      | Inr info \<Rightarrow> if IsDir info then Some (ErrIsDirectory p) else None)"

definition SetCertKeyFile :: "env \<Rightarrow> path \<Rightarrow> path \<Rightarrow> world \<Rightarrow> error option \<times> world" where
  "SetCertKeyFile e certPath keyPath s =
     (case FileExists e certPath of
        Some err \<Rightarrow> (Some err, s)
      | None \<Rightarrow>
         (case FileExists e keyPath of
            Some err \<Rightarrow> (Some err, s)
          | None \<Rightarrow> (None, s\<lparr>tb := (tb s)\<lparr>certFile := certPath, keyFile := keyPath\<rparr>\<rparr>)))"

definition SetCertKeyFromBytes :: "env \<Rightarrow> bytes \<Rightarrow> bytes \<Rightarrow> world \<Rightarrow> error option \<times> world" where
  "SetCertKeyFromBytes e certPEM keyPEM s =
     (case tls_X509KeyPair e certPEM keyPEM of
        Inl err \<Rightarrow> (Some (ErrSetCertKeyFromBytes err), s)
      | Inr c \<Rightarrow> (None, s\<lparr>tb := (tb s)\<lparr>cert := Some c\<rparr>\<rparr>))"

definition SetClientAuth :: "int \<Rightarrow> world \<Rightarrow> world" where
  "SetClientAuth auth s = s\<lparr>tb := (tb s)\<lparr>clientAuth := auth\<rparr>\<rparr>"

definition SetInsecureSkipVerify :: "bool \<Rightarrow> world \<Rightarrow> world" where
  "SetInsecureSkipVerify skip s = s\<lparr>tb := (tb s)\<lparr>insecure := skip\<rparr>\<rparr>"

section \<open>The credential cell and the file monitor\<close>

text \<open>\<^verbatim>\<open>reloadCert\<close>: the pair is stored only when loading it succeeded.\<close>

definition reloadCert :: "env \<Rightarrow> world \<Rightarrow> error option \<times> world" where
  "reloadCert e s =
     (case tls_LoadX509KeyPair e (certFile (tb s)) (keyFile (tb s)) of
        Inl err \<Rightarrow> (Some err, s)
      | Inr c \<Rightarrow> (None, s\<lparr>tb := (tb s)\<lparr>cert := Some c\<rparr>\<rparr>))"

text \<open>
  The \<^verbatim>\<open>w.Events\<close> case of the goroutine's \<^verbatim>\<open>select\<close>: a write, create or rename of the
  certificate or key file reloads the pair; a failure is only written to standard error.
  The 100 ms sleep is not modelled.
\<close>

definition qualifies :: "fs_event \<Rightarrow> world \<Rightarrow> bool" where
  "qualifies ev s =
     (event_Op ev AND (fsnotify_Write OR fsnotify_Create OR fsnotify_Rename) \<noteq> 0 \<and>
      (event_Name ev = certFile (tb s) \<or> event_Name ev = keyFile (tb s)))"

definition onEvent :: "env \<Rightarrow> fs_event \<Rightarrow> world \<Rightarrow> world" where
  "onEvent e ev s =
     (if qualifies ev s then
        (case reloadCert e s of
           (Some err, s') \<Rightarrow> s'\<lparr>stderr := stderr s' @ [ErrCertReload err]\<rparr>
         | (None, s') \<Rightarrow> s')
      else s)"

section \<open>The trust pool\<close>

text \<open>
  \<^verbatim>\<open>(*x509.CertPool).AddCert\<close> on the pool the builder points to: a certificate already
  in the pool is not added a second time.
\<close>

definition pool_add :: "x509_cert \<Rightarrow> x509_cert list \<Rightarrow> x509_cert list" where
  "pool_add c p = (if c \<in> set p then p else p @ [c])"

definition AddCert :: "x509_cert \<Rightarrow> world \<Rightarrow> world" where
  "AddCert c s = s\<lparr>pools := (pools s)(ca (tb s) := pool_add c (pools s (ca (tb s))))\<rparr>"

text \<open>
  \<^verbatim>\<open>AddCABytes\<close>: the loop decodes one PEM block after the other until the decoder finds
  none. Nothing in the code bounds the loop, so a run that never leaves it is the value
  \<open>None\<close>.
\<close>

partial_function (option) AddCABytes :: "env \<Rightarrow> bytes \<Rightarrow> world \<Rightarrow> (error option \<times> world) option" where
  "AddCABytes e pemData s =
     (case pem_Decode e pemData of
        None \<Rightarrow> Some (None, s)
      | Some (block, rest) \<Rightarrow>
          if block_Type block \<noteq> ''CERTIFICATE'' then AddCABytes e rest s
          else (case x509_ParseCertificate e (block_Bytes block) of
                  Inl err \<Rightarrow> Some (Some (ErrParseCert err), s)
                | Inr c \<Rightarrow> AddCABytes e rest (AddCert c s)))"

definition AddCAFile :: "env \<Rightarrow> path \<Rightarrow> world \<Rightarrow> (error option \<times> world) option" where
  "AddCAFile e p s =
     (if p = [] then Some (None, s)
      else (case os_ReadFile e p of
              Inl err \<Rightarrow> Some (Some (ErrReadCAFile p err), s)
            | Inr pemBytes \<Rightarrow> AddCABytes e pemBytes s))"

text \<open>
  \<^verbatim>\<open>filepath.Ext\<close> scans the name from its end up to a path separator and returns the
  suffix that starts at the last dot; \<^verbatim>\<open>strings.ToLower\<close> on the ASCII letters (no other
  character lowers to a letter of \<^verbatim>\<open>.crt\<close> or \<^verbatim>\<open>.pem\<close>).
\<close>

fun Ext_scan :: "string \<Rightarrow> string \<Rightarrow> string" where
  "Ext_scan [] acc = []"
| "Ext_scan (c # cs) acc =
     (if c = CHR ''/'' then []
      else if c = CHR ''.'' then c # acc
      else Ext_scan cs (c # acc))"

definition Ext :: "string \<Rightarrow> string" where
  "Ext p = Ext_scan (rev p) []"

definition lower_char :: "char \<Rightarrow> char" where
  "lower_char c =
     (case map_of (zip ''ABCDEFGHIJKLMNOPQRSTUVWXYZ'' ''abcdefghijklmnopqrstuvwxyz'') c of
        Some l \<Rightarrow> l
      | None \<Rightarrow> c)"

definition ToLower :: "string \<Rightarrow> string" where
  "ToLower str = map lower_char str"

text \<open>\<^verbatim>\<open>AddCADir\<close>: the loop over the entries, then the function itself.\<close>

fun AddCADir_entries :: "env \<Rightarrow> path \<Rightarrow> dir_entry list \<Rightarrow> world \<Rightarrow> (error option \<times> world) option" where
  "AddCADir_entries e dir [] s = Some (None, s)"
| "AddCADir_entries e dir (entry # entries) s =
     (if \<not> IsRegular (entry_Type entry) then AddCADir_entries e dir entries s
      else
        (let ext = ToLower (Ext (entry_Name entry)) in
         if ext = ''.crt'' \<or> ext = ''.pem'' then
           (let p = filepath_Join e dir (entry_Name entry) in
            case AddCAFile e p s of
              None \<Rightarrow> None
            | Some (Some err, s') \<Rightarrow> Some (Some (ErrLoadCA p err), s')
            | Some (None, s') \<Rightarrow> AddCADir_entries e dir entries s')
         else AddCADir_entries e dir entries s))"

definition AddCADir :: "env \<Rightarrow> path \<Rightarrow> world \<Rightarrow> (error option \<times> world) option" where
  "AddCADir e dir s =
     (if dir = [] then Some (None, s)
      else (case os_ReadDir e dir of
              Inl err \<Rightarrow> Some (Some (ErrReadCADir dir err), s)
            | Inr entries \<Rightarrow> AddCADir_entries e dir entries s))"

text \<open>\<^verbatim>\<open>VerifyCertTrusted\<close> reads the pool and changes nothing.\<close>

fun verify_all :: "env \<Rightarrow> x509_cert list \<Rightarrow> x509_cert list \<Rightarrow> error option" where
  "verify_all e roots [] = None"
| "verify_all e roots (c # cs) =
     (case x509_Verify e roots c of
        Some err \<Rightarrow> Some (ErrCertNotTrusted err)
      | None \<Rightarrow> verify_all e roots cs)"

definition VerifyCertTrusted :: "env \<Rightarrow> bytes \<Rightarrow> world \<Rightarrow> error option" where
  "VerifyCertTrusted e certPEM s =
     (case x509_ParseCertificates e certPEM of
        Inl err \<Rightarrow> Some (ErrParseCert err)
      | Inr certs \<Rightarrow> verify_all e (pools s (ca (tb s))) certs)"

section \<open>Starting and stopping the monitor\<close>

text \<open>
  \<^verbatim>\<open>startWatcher\<close>: nothing when a watcher is set; otherwise a new fsnotify watcher on the
  directories of the two files (errors of \<^verbatim>\<open>w.Add\<close> ignored) and a goroutine for it.
\<close>

definition startWatcher :: "env \<Rightarrow> world \<Rightarrow> world" where
  "startWatcher e s =
     (if watcher (tb s) \<noteq> None then s
      else (case fsnotify_NewWatcher e of
              Some err \<Rightarrow> s\<lparr>stderr := stderr s @ [ErrWatcherInit err]\<rparr>
            | None \<Rightarrow>
                (let w = length (fs_watchers s);
                     dirs = remdups [filepath_Dir e (certFile (tb s)), filepath_Dir e (keyFile (tb s))];
                     added = filter (\<lambda>d. fsnotify_Add e d = None) dirs
                 in s\<lparr>tb := (tb s)\<lparr>watcher := Some w\<rparr>,
                      fs_watchers := fs_watchers s @ [added],
                      goroutines := goroutines s @ [w]\<rparr>)))"

text \<open>
  Go's \<^verbatim>\<open>close\<close> of a channel panics when the channel is closed already. \<^verbatim>\<open>Close\<close>
  asks the channel first: the \<^verbatim>\<open>select\<close> takes the receive when the channel is closed
  and the \<^verbatim>\<open>default\<close> branch, which closes it, otherwise.
\<close>

definition close_chan :: "bool \<Rightarrow> bool outcome" where
  "close_chan closed = (if closed then Panics ErrCloseOfClosedChannel else Returns True)"

definition Close :: "world \<Rightarrow> world outcome" where
  "Close s =
     (if watcher (tb s) \<noteq> None then
        (case (if doneCh (tb s) then Returns (doneCh (tb s)) else close_chan (doneCh (tb s))) of
           Panics err \<Rightarrow> Panics err
         | Returns d \<Rightarrow> Returns (s\<lparr>tb := (tb s)\<lparr>doneCh := d, watcher := None\<rparr>\<rparr>))
      else Returns s)"

text \<open>
  The other two cases of the goroutine's \<^verbatim>\<open>select\<close>: an error of the watcher is written
  to standard error; a receive from the closed channel \<^verbatim>\<open>done\<close> ends the goroutine.
\<close>

definition onError :: "error \<Rightarrow> world \<Rightarrow> world" where
  "onError err s = s\<lparr>stderr := stderr s @ [ErrWatcher err]\<rparr>"

definition onDone :: "nat \<Rightarrow> world \<Rightarrow> world" where
  "onDone w s = s\<lparr>goroutines := removeAll w (goroutines s)\<rparr>"

section \<open>Producing configurations\<close>

text \<open>\<^verbatim>\<open>TLSClientAuth.AuthType\<close>: a value outside the five known ones becomes 0.\<close>

definition AuthType :: "int \<Rightarrow> int" where
  "AuthType tca = (if tca < 0 \<or> tca > 4 then 0 else tca)"

definition VersionTLS12 :: nat where
  "VersionTLS12 = 771"

text \<open>A configuration object is allocated at the next free address.\<close>

definition new_config :: "tls_config \<Rightarrow> world \<Rightarrow> addr \<times> world" where
  "new_config cfg s =
     (next_config s,
      s\<lparr>configs := (configs s)(next_config s \<mapsto> cfg), next_config := Suc (next_config s)\<rparr>)"

definition set_Certificates :: "addr \<Rightarrow> tls_certificate list \<Rightarrow> world \<Rightarrow> world" where
  "set_Certificates a cs s =
     s\<lparr>configs := (configs s)(a := map_option (\<lambda>cfg. cfg\<lparr>Certificates := cs\<rparr>) (configs s a))\<rparr>"

definition injectServerCert :: "env \<Rightarrow> addr \<Rightarrow> world \<Rightarrow> world outcome" where
  "injectServerCert e cfg s =
     (case (if cert (tb s) = None \<and> certFile (tb s) \<noteq> [] \<and> keyFile (tb s) \<noteq> []
            then reloadCert e s else (None, s)) of
        (Some err, s') \<Rightarrow> Panics (ErrServerCertLoad err)
      | (None, s') \<Rightarrow>
          (case cert (tb s') of
             Some c \<Rightarrow> Returns (startWatcher e (set_Certificates cfg [c] s'))
           | None \<Rightarrow> Returns s'))"

definition injectClientCert :: "addr \<Rightarrow> world \<Rightarrow> world" where
  "injectClientCert cfg s =
     (case cert (tb s) of
        Some c \<Rightarrow> set_Certificates cfg [c] s
      | None \<Rightarrow> s)"

definition ForServer :: "env \<Rightarrow> world \<Rightarrow> (addr \<times> world) outcome" where
  "ForServer e s =
     (let (tlsCfg, s1) =
        new_config \<lparr>ClientAuth = AuthType (clientAuth (tb s)), ClientCAs = Some (ca (tb s)),
                    RootCAs = None, MinVersion = VersionTLS12, InsecureSkipVerify = False,
                    Certificates = []\<rparr> s
      in case injectServerCert e tlsCfg s1 of
           Panics err \<Rightarrow> Panics err
         | Returns s2 \<Rightarrow> Returns (tlsCfg, s2))"

definition ForClient :: "world \<Rightarrow> addr \<times> world" where
  "ForClient s =
     (let (tlsCfg, s1) =
        new_config \<lparr>ClientAuth = 0, ClientCAs = None, RootCAs = Some (ca (tb s)),
                    MinVersion = VersionTLS12, InsecureSkipVerify = insecure (tb s),
                    Certificates = []\<rparr> s
      in (tlsCfg, injectClientCert tlsCfg s1))"

text \<open>
  \<^verbatim>\<open>NewTLSConfigBuilder\<close>: policy \<^verbatim>\<open>none\<close>, an open channel, and a pool at address 0 that
  holds the system's certificates when asked for (an empty pool when the system has
  none). The finalizer that calls \<^verbatim>\<open>Close\<close> at garbage collection is not modelled.
\<close>

definition empty_world :: "x509_cert list \<Rightarrow> world" where
  "empty_world seed =
     \<lparr>pools = (\<lambda>_. [])(0 := seed), configs = (\<lambda>_. None), next_config = 0,
      fs_watchers = [], goroutines = [], stderr = [],
      tb = \<lparr>ca = 0, certFile = [], keyFile = [], clientAuth = 0, insecure = False,
            cert = None, watcher = None, doneCh = False\<rparr>\<rparr>"

definition NewTLSConfigBuilder :: "env \<Rightarrow> bool \<Rightarrow> error + world" where
  "NewTLSConfigBuilder e useSystemCA =
     (if useSystemCA then
        (case x509_SystemCertPool e of
           Inl err \<Rightarrow> Inl (ErrSystemCertPool err)
         | Inr None \<Rightarrow> Inr (empty_world [])
         | Inr (Some seed) \<Rightarrow> Inr (empty_world seed))
      else Inr (empty_world []))"

section \<open>Runs of the builder\<close>

text \<open>
  The public operations of the builder, and the three cases of the \<^verbatim>\<open>select\<close> of a
  watcher goroutine. An error an operation returns goes to its caller and the run goes
  on; a panic ends the run; \<open>None\<close> is a call that does not return. A goroutine case
  that cannot be taken (no such goroutine, or \<^verbatim>\<open>done\<close> still open) leaves the world as
  it is.
\<close>

datatype op =
    Op_AddCABytes bytes
  | Op_AddCAFile path
  | Op_AddCADir path
  | Op_SetCertKeyFile path path
  | Op_SetCertKeyFromBytes bytes bytes
  | Op_SetClientAuth int
  | Op_SetInsecureSkipVerify bool
  | Op_ForServer
  | Op_ForClient
  | Op_VerifyCertTrusted bytes
  | Op_Close
  | Go_Event nat fs_event
  | Go_Error nat error
  | Go_Done nat

fun exec :: "env \<Rightarrow> op \<Rightarrow> world \<Rightarrow> world outcome option" where
  "exec e (Op_AddCABytes b) s = map_option (\<lambda>r. Returns (snd r)) (AddCABytes e b s)"
| "exec e (Op_AddCAFile p) s = map_option (\<lambda>r. Returns (snd r)) (AddCAFile e p s)"
| "exec e (Op_AddCADir d) s = map_option (\<lambda>r. Returns (snd r)) (AddCADir e d s)"
| "exec e (Op_SetCertKeyFile c k) s = Some (Returns (snd (SetCertKeyFile e c k s)))"
| "exec e (Op_SetCertKeyFromBytes c k) s = Some (Returns (snd (SetCertKeyFromBytes e c k s)))"
| "exec e (Op_SetClientAuth a) s = Some (Returns (SetClientAuth a s))"
| "exec e (Op_SetInsecureSkipVerify b) s = Some (Returns (SetInsecureSkipVerify b s))"
| "exec e Op_ForServer s =
     Some (case ForServer e s of Panics err \<Rightarrow> Panics err | Returns r \<Rightarrow> Returns (snd r))"
| "exec e Op_ForClient s = Some (Returns (snd (ForClient s)))"
| "exec e (Op_VerifyCertTrusted b) s = Some (Returns s)"
| "exec e Op_Close s = Some (Close s)"
| "exec e (Go_Event w ev) s =
     Some (Returns (if w \<in> set (goroutines s) then onEvent e ev s else s))"
| "exec e (Go_Error w err) s =
     Some (Returns (if w \<in> set (goroutines s) then onError err s else s))"
| "exec e (Go_Done w) s =
     Some (Returns (if w \<in> set (goroutines s) \<and> doneCh (tb s) then onDone w s else s))"

fun run :: "(env \<times> op) list \<Rightarrow> world \<Rightarrow> world outcome option" where
  "run [] s = Some (Returns s)"
| "run (step # steps) s =
     (case exec (fst step) (snd step) s of
        None \<Rightarrow> None
      | Some (Panics err) \<Rightarrow> Some (Panics err)
      | Some (Returns s') \<Rightarrow> run steps s')"

section \<open>The older manager: type TLS with a watcher\<close>

text \<open>
  The \<^verbatim>\<open>TLS\<close> type that loads its pair into an \<^verbatim>\<open>atomic.Value\<close> and watches the files. Its
  channel \<^verbatim>\<open>done\<close> is \<^verbatim>\<open>nil\<close> until \<^verbatim>\<open>startWatcher\<close> makes one, so channels live in a store
  of their own: \<open>chans c\<close> is \<open>True\<close> once channel \<open>c\<close> is closed.
\<close>

record TLS =
  tls_ca :: addr
  tls_certFile :: path
  tls_keyFile :: path
  tls_at :: int
  tls_cert :: "tls_certificate option"
  tls_watcher :: "nat option"
  tls_done :: "addr option"

record tls_world =
  tw_pools :: "addr \<Rightarrow> x509_cert list"
  tw_chans :: "addr \<Rightarrow> bool"
  tw_next_chan :: addr
  tw_fs_watchers :: "path list list"
  tw_goroutines :: "nat list"
  tw_stderr :: "error list"
  tw_tls :: TLS

definition TLS_reloadCert :: "env \<Rightarrow> tls_world \<Rightarrow> error option \<times> tls_world" where
  "TLS_reloadCert e s =
     (case tls_LoadX509KeyPair e (tls_certFile (tw_tls s)) (tls_keyFile (tw_tls s)) of
        Inl err \<Rightarrow> (Some (ErrReloadCert err), s)
      | Inr pair \<Rightarrow> (None, s\<lparr>tw_tls := (tw_tls s)\<lparr>tls_cert := Some pair\<rparr>\<rparr>))"

text \<open>
  \<^verbatim>\<open>(*TLS).startWatcher\<close> has no guard of its own and makes a new channel each time; a
  directory that cannot be watched is reported on standard error.
\<close>

definition TLS_startWatcher :: "env \<Rightarrow> tls_world \<Rightarrow> tls_world" where
  "TLS_startWatcher e s =
     (case fsnotify_NewWatcher e of
        Some err \<Rightarrow> s\<lparr>tw_stderr := tw_stderr s @ [ErrWatcherInit err]\<rparr>
      | None \<Rightarrow>
          (let w = length (tw_fs_watchers s);
               c = tw_next_chan s;
               dirs = remdups [filepath_Dir e (tls_certFile (tw_tls s)),
                               filepath_Dir e (tls_keyFile (tw_tls s))];
               added = filter (\<lambda>d. fsnotify_Add e d = None) dirs;
               failed = concat (map (\<lambda>d. case fsnotify_Add e d of
                                              None \<Rightarrow> []
                                            | Some err \<Rightarrow> [ErrWatcherWatch d err]) dirs)
           in s\<lparr>tw_tls := (tw_tls s)\<lparr>tls_watcher := Some w, tls_done := Some c\<rparr>,
                tw_chans := (tw_chans s)(c := False),
                tw_next_chan := Suc c,
                tw_fs_watchers := tw_fs_watchers s @ [added],
                tw_stderr := tw_stderr s @ failed,
                tw_goroutines := tw_goroutines s @ [w]\<rparr>))"

definition empty_config :: tls_config where
  "empty_config =
     \<lparr>ClientAuth = 0, ClientCAs = None, RootCAs = None, MinVersion = 0,
      InsecureSkipVerify = False, Certificates = []\<rparr>"

definition TLS_GetTLSConfig :: "env \<Rightarrow> tls_world \<Rightarrow> (tls_config \<times> tls_world) outcome" where
  "TLS_GetTLSConfig e s =
     (if tls_certFile (tw_tls s) \<noteq> [] \<and> tls_keyFile (tw_tls s) \<noteq> [] then
        (let tlsConfig = \<lparr>ClientAuth = AuthType (tls_at (tw_tls s)),
                          ClientCAs = Some (tls_ca (tw_tls s)),
                          RootCAs = Some (tls_ca (tw_tls s)),
                          MinVersion = VersionTLS12, InsecureSkipVerify = False,
                          Certificates = []\<rparr>
         in case (if tls_cert (tw_tls s) = None then TLS_reloadCert e s else (None, s)) of
              (Some err, s') \<Rightarrow> Panics (ErrGetTLSConfig err)
            | (None, s') \<Rightarrow>
                (case tls_cert (tw_tls s') of
                   None \<Rightarrow> Panics ErrNilInterfaceConversion
                 | Some c \<Rightarrow>
                     Returns (tlsConfig\<lparr>Certificates := [c]\<rparr>,
                              if tls_watcher (tw_tls s') = None then TLS_startWatcher e s'
                              else s')))
      else Returns (empty_config, s))"

text \<open>
  \<^verbatim>\<open>(*TLS).Close\<close>. A receive from a \<^verbatim>\<open>nil\<close> channel is never ready, so the \<^verbatim>\<open>select\<close>
  would take \<^verbatim>\<open>default\<close> and \<^verbatim>\<open>close(nil)\<close> panics.
\<close>

definition TLS_Close :: "tls_world \<Rightarrow> tls_world outcome" where
  "TLS_Close s =
     (if tls_watcher (tw_tls s) = None then Returns s
      else
        (case tls_done (tw_tls s) of
           None \<Rightarrow> Panics ErrCloseOfNilChannel
         | Some c \<Rightarrow>
             (case (if tw_chans s c then Returns (tw_chans s c) else close_chan (tw_chans s c)) of
                Panics err \<Rightarrow> Panics err
              | Returns d \<Rightarrow>
                  Returns (s\<lparr>tw_chans := (tw_chans s)(c := d),
                             tw_tls := (tw_tls s)\<lparr>tls_watcher := None\<rparr>\<rparr>))))"

text \<open>The \<^verbatim>\<open>w.Events\<close> case of the goroutine of \<^verbatim>\<open>(*TLS).startWatcher\<close>.\<close>

definition TLS_onEvent :: "env \<Rightarrow> fs_event \<Rightarrow> tls_world \<Rightarrow> tls_world" where
  "TLS_onEvent e ev s =
     (if event_Op ev AND (fsnotify_Write OR fsnotify_Create OR fsnotify_Rename) \<noteq> 0 \<and>
         (event_Name ev = tls_certFile (tw_tls s) \<or> event_Name ev = tls_keyFile (tw_tls s))
      then
        (case TLS_reloadCert e s of
           (Some err, s') \<Rightarrow> s'\<lparr>tw_stderr := tw_stderr s' @ [ErrCertReload err]\<rparr>
         | (None, s') \<Rightarrow> s')
      else s)"

text \<open>
  A \<^verbatim>\<open>TLS\<close> value as \<^verbatim>\<open>NewTLS\<close> returns it, with the two file names as \<^verbatim>\<open>SetCertFile\<close>
  and \<^verbatim>\<open>SetKeyFile\<close> store them.
\<close>

definition new_tls_world :: "path \<Rightarrow> path \<Rightarrow> tls_world" where
  "new_tls_world certfile keyfile =
     \<lparr>tw_pools = (\<lambda>_. []), tw_chans = (\<lambda>_. False), tw_next_chan = 0,
      tw_fs_watchers = [], tw_goroutines = [], tw_stderr = [],
      tw_tls = \<lparr>tls_ca = 0, tls_certFile = certfile, tls_keyFile = keyfile, tls_at = 0,
                tls_cert = None, tls_watcher = None, tls_done = None\<rparr>\<rparr>"

section \<open>What the trust pool operations are to do\<close>

text \<open>
  The PEM blocks of a buffer, as decoding it again and again yields them; the number
  bounds how many blocks are read. A decoder \<open>shrinks\<close> when the rest it returns is
  shorter than the buffer it was given, as the rest \<^verbatim>\<open>pem.Decode\<close> returns after a block
  is.
\<close>

definition decoder_shrinks :: "(bytes \<Rightarrow> (pem_block \<times> bytes) option) \<Rightarrow> bool" where
  "decoder_shrinks dec = (\<forall>d b rest. dec d = Some (b, rest) \<longrightarrow> length rest < length d)"

fun pem_blocks :: "(bytes \<Rightarrow> (pem_block \<times> bytes) option) \<Rightarrow> nat \<Rightarrow> bytes \<Rightarrow> pem_block list" where
  "pem_blocks dec 0 d = []"
| "pem_blocks dec (Suc n) d =
     (case dec d of
        None \<Rightarrow> []
      | Some (b, rest) \<Rightarrow> b # pem_blocks dec n rest)"

text \<open>
  Adding from bytes, in the words of the specification: the blocks that are not
  certificates are skipped; the certificate blocks are parsed in order; those before the
  first one that does not parse are added to the pool; the first one that does not
  parse, if there is one, is the error of the call.
\<close>

definition add_from_bytes :: "env \<Rightarrow> pem_block list \<Rightarrow> world \<Rightarrow> error option \<times> world" where
  "add_from_bytes e blocks s =
     (let parsed = map (\<lambda>b. x509_ParseCertificate e (block_Bytes b))
                       (filter (\<lambda>b. block_Type b = ''CERTIFICATE'') blocks);
          added = map projr (takeWhile (\<lambda>r. \<not> isl r) parsed)
      in (case dropWhile (\<lambda>r. \<not> isl r) parsed of
            [] \<Rightarrow> None
          | r # _ \<Rightarrow> Some (ErrParseCert (projl r)),
          s\<lparr>pools := (pools s)(ca (tb s) := fold pool_add added (pools s (ca (tb s))))\<rparr>))"

text \<open>
  Adding from a directory, in the words of the specification: the entries taken are
  the regular files whose name ends in \<^verbatim>\<open>.crt\<close> or \<^verbatim>\<open>.pem\<close>, whatever the case of the
  letters; their paths are loaded one after the other, and the first one that fails ends
  the call with an error that carries its path.
\<close>

definition has_suffix_ci :: "string \<Rightarrow> string \<Rightarrow> bool" where
  "has_suffix_ci suf name =
     (length suf \<le> length name \<and>
      ToLower (drop (length name - length suf) name) = suf)"

definition is_ca_file :: "dir_entry \<Rightarrow> bool" where
  "is_ca_file en =
     (entry_Type en = Regular \<and>
      (has_suffix_ci ''.crt'' (entry_Name en) \<or> has_suffix_ci ''.pem'' (entry_Name en)))"

fun add_files :: "env \<Rightarrow> path list \<Rightarrow> world \<Rightarrow> (error option \<times> world) option" where
  "add_files e [] s = Some (None, s)"
| "add_files e (p # ps) s =
     (case AddCAFile e p s of
        None \<Rightarrow> None
      | Some (Some err, s') \<Rightarrow> Some (Some (ErrLoadCA p err), s')
      | Some (None, s') \<Rightarrow> add_files e ps s')"

definition add_from_directory :: "env \<Rightarrow> path \<Rightarrow> dir_entry list \<Rightarrow> world \<Rightarrow> (error option \<times> world) option" where
  "add_from_directory e dir entries s =
     add_files e (map (\<lambda>en. filepath_Join e dir (entry_Name en)) (filter is_ca_file entries)) s"

section \<open>Readings of the specification's states\<close>

text \<open>
  No credential source was configured: nothing was stored in the cell and no file
  names were set.
\<close>

definition no_credential_source :: "world \<Rightarrow> bool" where
  "no_credential_source s =
     (cert (tb s) = None \<and> certFile (tb s) = [] \<and> keyFile (tb s) = [])"

text \<open>
  What a configuration object shows of its trust pools: the certificates in the pool
  \<^verbatim>\<open>ClientCAs\<close> points to and in the pool \<^verbatim>\<open>RootCAs\<close> points to, as a verification through
  that configuration reads them.
\<close>

definition trust_pool_seen :: "world \<Rightarrow> addr \<Rightarrow> (x509_cert list option \<times> x509_cert list option) option" where
  "trust_pool_seen s a =
     map_option (\<lambda>cfg. (map_option (pools s) (ClientCAs cfg), map_option (pools s) (RootCAs cfg)))
       (configs s a)"

text \<open>
  The only change to the world is that certificates were appended to the pool of the
  builder.
\<close>

definition only_pool_grows :: "world \<Rightarrow> world \<Rightarrow> bool" where
  "only_pool_grows s s' =
     (\<exists>p. s' = s\<lparr>pools := (pools s)(ca (tb s) := p)\<rparr> \<and> prefix (pools s (ca (tb s))) p)"

text \<open>
  What a run keeps: the configuration objects handed out so far are the ones they
  were, every pool still starts with the certificates it had, and a closed channel
  \<^verbatim>\<open>done\<close> is still closed.
\<close>

definition kept :: "world \<Rightarrow> world \<Rightarrow> bool" where
  "kept s s' =
     (next_config s \<le> next_config s' \<and>
      (\<forall>a<next_config s. configs s' a = configs s a) \<and>
      (\<forall>p. prefix (pools s p) (pools s' p)) \<and>
      (doneCh (tb s) \<longrightarrow> doneCh (tb s')))"

text \<open>
  The monitor is watching when there is a watcher and its goroutine has not been told to
  stop: the channel \<^verbatim>\<open>done\<close> (of the \<^verbatim>\<open>TLS\<close> type: the channel \<^verbatim>\<open>done\<close> points to now) is
  open.
\<close>

definition watching :: "world \<Rightarrow> bool" where
  "watching s = (watcher (tb s) \<noteq> None \<and> \<not> doneCh (tb s))"

definition TLS_watching :: "tls_world \<Rightarrow> bool" where
  "TLS_watching t =
     (tls_watcher (tw_tls t) \<noteq> None \<and>
      (case tls_done (tw_tls t) of
         None \<Rightarrow> False
       | Some c \<Rightarrow> \<not> tw_chans t c))"

section \<open>A concrete environment\<close>

text \<open>
  A small file system used to evaluate the operations: a directory \<^verbatim>\<open>certs\<close> with the
  server's pair, and a directory \<^verbatim>\<open>ca\<close> with \<^verbatim>\<open>a.crt\<close>, \<^verbatim>\<open>b.pem\<close>, \<^verbatim>\<open>c.txt\<close> and a
  subdirectory \<^verbatim>\<open>d\<close>, and a directory \<^verbatim>\<open>mixed\<close> whose file \<^verbatim>\<open>x.pem\<close> does not parse. The PEM decoder reads a buffer of blocks \<^verbatim>\<open>T:body;\<close> where \<^verbatim>\<open>T\<close> is
  \<^verbatim>\<open>C\<close> for a certificate block and anything else for another block; a certificate body
  that starts with \<^verbatim>\<open>!\<close> does not parse.
\<close>

definition demo_decode :: "bytes \<Rightarrow> (pem_block \<times> bytes) option" where
  "demo_decode d =
     (case d of
        t # sep # body \<Rightarrow>
          (if sep = CHR '':'' \<and> CHR '';'' \<in> set body then
             Some (Block (if t = CHR ''C'' then ''CERTIFICATE'' else ''PRIVATE KEY'')
                         (takeWhile (\<lambda>c. c \<noteq> CHR '';'') body),
                   tl (dropWhile (\<lambda>c. c \<noteq> CHR '';'') body))
           else None)
      | _ \<Rightarrow> None)"

definition demo_parse :: "bytes \<Rightarrow> error + x509_cert" where
  "demo_parse der =
     (case der of
        [] \<Rightarrow> Inl (LibError ''x509: malformed certificate'')
      | c # cs \<Rightarrow> if c = CHR ''!'' then Inl (LibError ''x509: malformed certificate'') else Inr der)"

definition demo_env :: env where
  "demo_env =
     \<lparr>os_Stat = (\<lambda>p. if p = ''certs/server.crt'' \<or> p = ''certs/server.key'' then Inr Regular
                     else if p = ''certs'' \<or> p = ''ca'' \<or> p = ''ca/d'' then Inr Directory
                     else Inl (LibError ''no such file or directory'')),
      os_ReadFile = (\<lambda>p. if p = ''ca/a.crt'' then Inr ''C:rootA;''
                         else if p = ''ca/b.pem'' then Inr ''K:key;C:rootB;''
                         else if p = ''ca/c.txt'' then Inr ''C:rootC;''
                         else if p = ''mixed/ROOT.CRT'' then Inr ''C:rootD;''
                         else if p = ''mixed/x.pem'' then Inr ''C:!broken;''
                         else if p = ''mixed/y.crt'' then Inr ''C:rootE;''
                         else Inl (LibError ''no such file or directory'')),
      os_ReadDir = (\<lambda>p. if p = ''ca'' then
                            Inr [DirEntry ''a.crt'' Regular, DirEntry ''b.pem'' Regular,
                                 DirEntry ''c.txt'' Regular, DirEntry ''d'' Directory]
                        else if p = ''mixed'' then
                            Inr [DirEntry ''link.pem'' Symlink, DirEntry ''ROOT.CRT'' Regular,
                                 DirEntry ''x.pem'' Regular, DirEntry ''y.crt'' Regular]
                        else Inl (LibError ''no such file or directory'')),
      filepath_Join = (\<lambda>d n. d @ ''/'' @ n),
      filepath_Dir = (\<lambda>p. rev (tl (dropWhile (\<lambda>c. c \<noteq> CHR ''/'') (rev p)))),
      pem_Decode = demo_decode,
      x509_ParseCertificate = demo_parse,
      tls_LoadX509KeyPair = (\<lambda>c k. if c = ''certs/server.crt'' \<and> k = ''certs/server.key''
                                   then Inr (KeyPair [''leaf1''] ''key1'')
                                   else Inl (LibError ''no such file or directory'')),
      tls_X509KeyPair = (\<lambda>c k. if c = ''C:leaf0;'' \<and> k = ''K:key0;''
                               then Inr (KeyPair [''leaf0''] ''key0'')
                               else Inl (LibError ''tls: failed to find any PEM data'')),
      x509_SystemCertPool = Inr None,
      x509_ParseCertificates = (\<lambda>b. Inr [b]),
      x509_Verify = (\<lambda>roots c. if c \<in> set roots then None
                               else Some (LibError ''x509: certificate signed by unknown authority'')),
      fsnotify_NewWatcher = None,
      fsnotify_Add = (\<lambda>d. None)\<rparr>"

text \<open>The same environment after the pair on disk became unreadable.\<close>

definition broken_env :: env where
  "broken_env =
     demo_env\<lparr>tls_LoadX509KeyPair := (\<lambda>c k. Inl (LibError ''tls: failed to find any PEM data''))\<rparr>"

text \<open>
  A fresh builder whose two files were set, the same builder after its first
  \<^verbatim>\<open>ForServer\<close>, and a \<^verbatim>\<open>TLS\<close> value with the same files after its first \<^verbatim>\<open>GetTLSConfig\<close>.
\<close>

definition files_world :: world where
  "files_world =
     snd (SetCertKeyFile demo_env ''certs/server.crt'' ''certs/server.key'' (empty_world []))"

definition served_world :: world where
  "served_world =
     (case ForServer demo_env files_world of
        Returns r \<Rightarrow> snd r
      | Panics err \<Rightarrow> files_world)"

definition tls_served_world :: tls_world where
  "tls_served_world =
     (case TLS_GetTLSConfig demo_env (new_tls_world ''certs/server.crt'' ''certs/server.key'') of
        Returns r \<Rightarrow> snd r
      | Panics err \<Rightarrow> new_tls_world ''certs/server.crt'' ''certs/server.key'')"

text \<open>The environment after the pair on disk was replaced by a new one.\<close>

definition rotated_env :: env where
  "rotated_env = demo_env\<lparr>tls_LoadX509KeyPair := (\<lambda>c k. Inr (KeyPair [''leaf2''] ''key2''))\<rparr>"

text \<open>
  The served builder after some more calls: a new policy, a certificate added to the
  pool, a pair set from memory, and a second \<^verbatim>\<open>ForServer\<close>.
\<close>

definition later_steps :: "(env \<times> op) list" where
  "later_steps =
     [(demo_env, Op_SetClientAuth 4), (demo_env, Op_AddCABytes ''C:rootA;''),
      (demo_env, Op_SetCertKeyFromBytes ''C:leaf0;'' ''K:key0;''), (demo_env, Op_ForServer)]"

definition later_world :: world where
  "later_world =
     (case run later_steps served_world of
        Some (Returns s) \<Rightarrow> s
      | _ \<Rightarrow> served_world)"

text \<open>
  The served builder and the served \<^verbatim>\<open>TLS\<close> value after \<^verbatim>\<open>Close\<close>, and after one more
  request for a server configuration.
\<close>

definition closed_world :: world where
  "closed_world = (case Close served_world of Returns s \<Rightarrow> s | Panics err \<Rightarrow> served_world)"

definition restart_steps :: "(env \<times> op) list" where
  "restart_steps =
     [(demo_env, Op_ForServer), (demo_env, Op_Close), (demo_env, Op_ForServer)]"

definition restarted_world :: world where
  "restarted_world =
     (case run restart_steps closed_world of
        Some (Returns s) \<Rightarrow> s
      | _ \<Rightarrow> closed_world)"

definition tls_closed_world :: tls_world where
  "tls_closed_world =
     (case TLS_Close tls_served_world of Returns t \<Rightarrow> t | Panics err \<Rightarrow> tls_served_world)"

definition tls_restarted_world :: tls_world where
  "tls_restarted_world =
     (case TLS_GetTLSConfig demo_env tls_closed_world of
        Returns r \<Rightarrow> snd r
      | Panics err \<Rightarrow> tls_closed_world)"

section \<open>Properties\<close>

subsection \<open>The concrete worlds, evaluated\<close>

lemma files_world_eq:
  "files_world =
     (empty_world [])\<lparr>tb := (tb (empty_world []))\<lparr>certFile := ''certs/server.crt'',
                                                  keyFile := ''certs/server.key''\<rparr>\<rparr>"
  by (simp add: files_world_def SetCertKeyFile_def FileExists_def demo_env_def IsDir_def)

lemma served_world_tb:
  "tb served_world =
     \<lparr>ca = 0, certFile = ''certs/server.crt'', keyFile = ''certs/server.key'', clientAuth = 0,
      insecure = False, cert = Some (KeyPair [''leaf1''] ''key1''), watcher = Some 0,
      doneCh = False\<rparr>"
  by (simp add: served_world_def files_world_eq ForServer_def new_config_def
      injectServerCert_def reloadCert_def set_Certificates_def startWatcher_def
      empty_world_def demo_env_def Let_def)

lemma served_world_monitor:
  "goroutines served_world = [0] \<and> fs_watchers served_world = [[''certs'']] \<and>
   stderr served_world = [] \<and> next_config served_world = 1"
  by (simp add: served_world_def files_world_eq ForServer_def new_config_def
      injectServerCert_def reloadCert_def set_Certificates_def startWatcher_def
      empty_world_def demo_env_def Let_def)

lemma tls_served_world_eq:
  "tw_tls tls_served_world =
     \<lparr>tls_ca = 0, tls_certFile = ''certs/server.crt'', tls_keyFile = ''certs/server.key'',
      tls_at = 0, tls_cert = Some (KeyPair [''leaf1''] ''key1''), tls_watcher = Some 0,
      tls_done = Some 0\<rparr> \<and>
   tw_goroutines tls_served_world = [0] \<and> tw_chans tls_served_world 0 = False \<and>
   tw_next_chan tls_served_world = 1 \<and> tw_fs_watchers tls_served_world = [[''certs'']]"
  by (simp add: tls_served_world_def new_tls_world_def TLS_GetTLSConfig_def TLS_reloadCert_def
      TLS_startWatcher_def demo_env_def Let_def)

lemma broken_env_load:
  "tls_LoadX509KeyPair broken_env c k = Inl (LibError ''tls: failed to find any PEM data'')"
  by (simp add: broken_env_def)

lemma FileExists_None_iff:
  "FileExists e p = None \<longleftrightarrow> (\<exists>ft. os_Stat e p = Inr ft \<and> ft \<noteq> Directory)"
  by (auto simp: FileExists_def IsDir_def split: sum.splits)

lemma demo_env_NewWatcher: "fsnotify_NewWatcher demo_env = None"
  by (simp add: demo_env_def)

lemma demo_env_Stat:
  "os_Stat demo_env ''certs/server.crt'' = Inr Regular"
  "os_Stat demo_env ''certs/server.key'' = Inr Regular"
  "os_Stat demo_env ''certs'' = Inr Directory"
  "os_Stat demo_env ''certs/missing.key'' = Inl (LibError ''no such file or directory'')"
  by (simp_all add: demo_env_def)

subsection \<open>A failed reload keeps the credential\<close>

text \<open>
  Claim C2. Whenever the cell holds a credential and loading the pair from the two files
  fails, \<^verbatim>\<open>reloadCert\<close> returns the error and leaves the whole state as it was, and the
  event case of the monitor's goroutine leaves the credential in the cell: all it does
  with the error is to write it to standard error. The same holds for the reload of the
  older \<^verbatim>\<open>TLS\<close> type.
\<close>

theorem failed_reload_keeps_credential:
  "(cert (tb s) = Some c \<and>
    tls_LoadX509KeyPair e (certFile (tb s)) (keyFile (tb s)) = Inl err \<longrightarrow>
      reloadCert e s = (Some err, s) \<and>
      cert (tb (onEvent e ev s)) = Some c \<and>
      onEvent e ev s =
        (if qualifies ev s then s\<lparr>stderr := stderr s @ [ErrCertReload err]\<rparr> else s)) \<and>
   (tls_cert (tw_tls t) = Some c \<and>
    tls_LoadX509KeyPair e (tls_certFile (tw_tls t)) (tls_keyFile (tw_tls t)) = Inl err \<longrightarrow>
      TLS_reloadCert e t = (Some (ErrReloadCert err), t) \<and>
      tls_cert (tw_tls (TLS_onEvent e ev t)) = Some c)"
  by (simp add: reloadCert_def onEvent_def TLS_reloadCert_def TLS_onEvent_def)

theorem failed_reload_keeps_credential_witness:
  "cert (tb served_world) = Some (KeyPair [''leaf1''] ''key1'') \<and>
   tls_LoadX509KeyPair broken_env (certFile (tb served_world)) (keyFile (tb served_world)) =
     Inl (LibError ''tls: failed to find any PEM data'') \<and>
   qualifies (Event ''certs/server.crt'' fsnotify_Write) served_world \<and>
   cert (tb (onEvent broken_env (Event ''certs/server.crt'' fsnotify_Write) served_world)) =
     Some (KeyPair [''leaf1''] ''key1'') \<and>
   stderr (onEvent broken_env (Event ''certs/server.crt'' fsnotify_Write) served_world) =
     [ErrCertReload (LibError ''tls: failed to find any PEM data'')] \<and>
   tls_cert (tw_tls tls_served_world) = Some (KeyPair [''leaf1''] ''key1'') \<and>
   tls_cert (tw_tls (TLS_onEvent broken_env (Event ''certs/server.key'' fsnotify_Rename)
     tls_served_world)) = Some (KeyPair [''leaf1''] ''key1'')"
  using failed_reload_keeps_credential
    [where s = served_world and c = "KeyPair [''leaf1''] ''key1''" and e = broken_env
       and err = "LibError ''tls: failed to find any PEM data''"
       and ev = "Event ''certs/server.crt'' fsnotify_Write" and t = tls_served_world]
    failed_reload_keeps_credential
    [where s = served_world and c = "KeyPair [''leaf1''] ''key1''" and e = broken_env
       and err = "LibError ''tls: failed to find any PEM data''"
       and ev = "Event ''certs/server.key'' fsnotify_Rename" and t = tls_served_world]
  by (simp add: served_world_tb served_world_monitor tls_served_world_eq broken_env_load
      qualifies_def fsnotify_Write_def fsnotify_Create_def fsnotify_Rename_def)

subsection \<open>Starting the monitor twice\<close>

text \<open>
  Claim C7. When a watcher is set, \<^verbatim>\<open>startWatcher\<close> returns the state as it is: no error,
  no second fsnotify watcher, no second goroutine. Starting from a state with no watcher,
  two calls leave exactly the one goroutine the first call started. A \<^verbatim>\<open>ForServer\<close> on a
  watching builder, and a \<^verbatim>\<open>GetTLSConfig\<close> on a watching \<^verbatim>\<open>TLS\<close> value (whose guard is at the
  call of \<^verbatim>\<open>startWatcher\<close>), start nothing either.
\<close>

theorem start_is_idempotent:
  "(watcher (tb s) \<noteq> None \<longrightarrow> startWatcher e s = s) \<and>
   (watcher (tb s) = None \<and> fsnotify_NewWatcher e = None \<longrightarrow>
      startWatcher e' (startWatcher e s) = startWatcher e s \<and>
      goroutines (startWatcher e' (startWatcher e s)) = goroutines s @ [length (fs_watchers s)]) \<and>
   (watcher (tb s) \<noteq> None \<and> ForServer e s = Returns (a, s') \<longrightarrow>
      goroutines s' = goroutines s \<and> fs_watchers s' = fs_watchers s \<and>
      watcher (tb s') = watcher (tb s)) \<and>
   (tls_watcher (tw_tls t) \<noteq> None \<and> TLS_GetTLSConfig e t = Returns (cfg, t') \<longrightarrow>
      tw_goroutines t' = tw_goroutines t \<and> tw_fs_watchers t' = tw_fs_watchers t \<and>
      tls_watcher (tw_tls t') = tls_watcher (tw_tls t))"
proof -
  have direct: "watcher (tb s) \<noteq> None \<longrightarrow> startWatcher e s = s"
    by (simp add: startWatcher_def)
  have twice: "watcher (tb s) = None \<and> fsnotify_NewWatcher e = None \<longrightarrow>
      startWatcher e' (startWatcher e s) = startWatcher e s \<and>
      goroutines (startWatcher e' (startWatcher e s)) = goroutines s @ [length (fs_watchers s)]"
    by (simp add: startWatcher_def Let_def)
  have server: "watcher (tb s) \<noteq> None \<and> ForServer e s = Returns (a, s') \<longrightarrow>
      goroutines s' = goroutines s \<and> fs_watchers s' = fs_watchers s \<and>
      watcher (tb s') = watcher (tb s)"
    by (auto simp add: ForServer_def new_config_def injectServerCert_def reloadCert_def
        set_Certificates_def startWatcher_def split: if_splits sum.splits option.splits)
  have older: "tls_watcher (tw_tls t) \<noteq> None \<and> TLS_GetTLSConfig e t = Returns (cfg, t') \<longrightarrow>
      tw_goroutines t' = tw_goroutines t \<and> tw_fs_watchers t' = tw_fs_watchers t \<and>
      tls_watcher (tw_tls t') = tls_watcher (tw_tls t)"
    by (auto simp add: TLS_GetTLSConfig_def TLS_reloadCert_def empty_config_def
        split: if_splits sum.splits option.splits)
  from direct twice server older show ?thesis by blast
qed

theorem start_is_idempotent_witness:
  "watcher (tb served_world) = Some 0 \<and>
   watcher (tb files_world) = None \<and> fsnotify_NewWatcher demo_env = None \<and>
   startWatcher demo_env served_world = served_world \<and>
   goroutines (startWatcher demo_env served_world) = [0] \<and>
   goroutines (startWatcher demo_env (startWatcher demo_env files_world)) = [0] \<and>
   tls_watcher (tw_tls tls_served_world) = Some 0"
  using start_is_idempotent [where s = served_world and e = demo_env]
    start_is_idempotent [where s = files_world and e = demo_env and e' = demo_env]
  by (simp add: served_world_tb served_world_monitor tls_served_world_eq files_world_eq
      empty_world_def demo_env_NewWatcher startWatcher_def Let_def)

subsection \<open>Closing\<close>

text \<open>
  Claim C8. \<^verbatim>\<open>Close\<close> returns in every state of the builder, it never panics: the channel
  is closed only when it is still open. The state it returns has no watcher, and a second
  \<^verbatim>\<open>Close\<close> on it returns it unchanged. On a builder whose monitor was never started (no
  watcher) \<^verbatim>\<open>Close\<close> changes nothing. The \<^verbatim>\<open>Close\<close> of the older \<^verbatim>\<open>TLS\<close> type behaves the same
  in every state where a watcher comes with a channel, which is how \<^verbatim>\<open>startWatcher\<close> sets
  the two.
\<close>

theorem Close_is_safe:
  "(\<exists>s'. Close s = Returns s' \<and> watcher (tb s') = None \<and> Close s' = Returns s') \<and>
   (watcher (tb s) = None \<longrightarrow> Close s = Returns s) \<and>
   (tls_watcher (tw_tls t) = None \<longrightarrow> TLS_Close t = Returns t) \<and>
   (tls_done (tw_tls t) \<noteq> None \<longrightarrow>
      (\<exists>t'. TLS_Close t = Returns t' \<and> tls_watcher (tw_tls t') = None \<and>
            TLS_Close t' = Returns t'))"
  by (auto simp add: Close_def close_chan_def TLS_Close_def)

theorem Close_is_safe_witness:
  "watcher (tb files_world) = None \<and> Close files_world = Returns files_world \<and>
   watcher (tb served_world) = Some 0 \<and>
   Close served_world =
     Returns (served_world\<lparr>tb := (tb served_world)\<lparr>doneCh := True, watcher := None\<rparr>\<rparr>) \<and>
   Close (served_world\<lparr>tb := (tb served_world)\<lparr>doneCh := True, watcher := None\<rparr>\<rparr>) =
     Returns (served_world\<lparr>tb := (tb served_world)\<lparr>doneCh := True, watcher := None\<rparr>\<rparr>) \<and>
   tls_watcher (tw_tls (new_tls_world [] [])) = None \<and>
   TLS_Close (new_tls_world [] []) = Returns (new_tls_world [] []) \<and>
   tls_done (tw_tls tls_served_world) = Some 0 \<and>
   is_Returns (TLS_Close tls_served_world)"
  using Close_is_safe [where s = files_world and t = "new_tls_world [] []"]
    Close_is_safe [where s = served_world and t = tls_served_world]
  by (auto simp add: served_world_tb tls_served_world_eq files_world_eq empty_world_def
      new_tls_world_def Close_def close_chan_def)

subsection \<open>Setting the credential files\<close>

text \<open>
  Claim C10. \<^verbatim>\<open>SetCertKeyFile\<close> returns an error exactly when one of the two paths fails
  \<^verbatim>\<open>FileExists\<close> (it cannot be stat'ed, or it is a directory), and whenever it returns an
  error the state is the one it was called in: neither the certificate path nor the key
  path is stored, also when the certificate path alone was valid.
\<close>

theorem SetCertKeyFile_error_changes_nothing:
  "(fst (SetCertKeyFile e certPath keyPath s) = None \<longleftrightarrow>
      FileExists e certPath = None \<and> FileExists e keyPath = None) \<and>
   (FileExists e p = None \<longleftrightarrow> (\<exists>ft. os_Stat e p = Inr ft \<and> ft \<noteq> Directory)) \<and>
   (fst (SetCertKeyFile e certPath keyPath s) \<noteq> None \<longrightarrow>
      snd (SetCertKeyFile e certPath keyPath s) = s \<and>
      certFile (tb (snd (SetCertKeyFile e certPath keyPath s))) = certFile (tb s) \<and>
      keyFile (tb (snd (SetCertKeyFile e certPath keyPath s))) = keyFile (tb s))"
proof -
  have stat: "FileExists e p = None \<longleftrightarrow> (\<exists>ft. os_Stat e p = Inr ft \<and> ft \<noteq> Directory)"
    by (rule FileExists_None_iff)
  have rest: "(fst (SetCertKeyFile e certPath keyPath s) = None \<longleftrightarrow>
      FileExists e certPath = None \<and> FileExists e keyPath = None) \<and>
   (fst (SetCertKeyFile e certPath keyPath s) \<noteq> None \<longrightarrow>
      snd (SetCertKeyFile e certPath keyPath s) = s \<and>
      certFile (tb (snd (SetCertKeyFile e certPath keyPath s))) = certFile (tb s) \<and>
      keyFile (tb (snd (SetCertKeyFile e certPath keyPath s))) = keyFile (tb s))"
    by (simp add: SetCertKeyFile_def split: option.splits)
  from stat rest show ?thesis by blast
qed

theorem SetCertKeyFile_error_changes_nothing_witness:
  "fst (SetCertKeyFile demo_env ''certs/server.crt'' ''certs/missing.key'' (empty_world [])) =
     Some (ErrFileCheck ''certs/missing.key'' (LibError ''no such file or directory'')) \<and>
   FileExists demo_env ''certs/server.crt'' = None \<and>
   fst (SetCertKeyFile demo_env ''certs/server.crt'' ''certs'' files_world) =
     Some (ErrIsDirectory ''certs'') \<and>
   certFile (tb (snd (SetCertKeyFile demo_env ''certs/server.crt'' ''certs/missing.key''
     (empty_world [])))) = [] \<and>
   keyFile (tb (snd (SetCertKeyFile demo_env ''certs/server.crt'' ''certs''
     files_world))) = ''certs/server.key''"
  using SetCertKeyFile_error_changes_nothing
    [where e = demo_env and certPath = "''certs/server.crt''"
       and keyPath = "''certs/missing.key''" and s = "empty_world []"]
    SetCertKeyFile_error_changes_nothing
    [where e = demo_env and certPath = "''certs/server.crt''" and keyPath = "''certs''"
       and s = files_world]
  by (simp add: SetCertKeyFile_def FileExists_def demo_env_Stat IsDir_def empty_world_def
      files_world_eq)

subsection \<open>Adding certificates from bytes\<close>

lemma add_from_bytes_Nil: "add_from_bytes e [] s = (None, s)"
  by (simp add: add_from_bytes_def)

lemma add_from_bytes_skip:
  "block_Type b \<noteq> ''CERTIFICATE'' \<Longrightarrow> add_from_bytes e (b # bs) s = add_from_bytes e bs s"
  by (simp add: add_from_bytes_def)

lemma add_from_bytes_bad:
  "block_Type b = ''CERTIFICATE'' \<Longrightarrow> x509_ParseCertificate e (block_Bytes b) = Inl err \<Longrightarrow>
   add_from_bytes e (b # bs) s = (Some (ErrParseCert err), s)"
  by (simp add: add_from_bytes_def)

lemma add_from_bytes_good:
  "block_Type b = ''CERTIFICATE'' \<Longrightarrow> x509_ParseCertificate e (block_Bytes b) = Inr c \<Longrightarrow>
   add_from_bytes e (b # bs) s = add_from_bytes e bs (AddCert c s)"
  by (simp add: add_from_bytes_def AddCert_def Let_def)

lemma AddCABytes_fuel:
  "decoder_shrinks (pem_Decode e) \<Longrightarrow> length d \<le> n \<Longrightarrow>
   AddCABytes e d s = Some (add_from_bytes e (pem_blocks (pem_Decode e) n d) s)"
proof (induction n arbitrary: d s)
  case 0
  have "pem_Decode e d = None"
  proof (cases "pem_Decode e d")
    case (Some br)
    then have "pem_Decode e d = Some (fst br, snd br)" by simp
    with "0.prems" have "length (snd br) < length d"
      unfolding decoder_shrinks_def by blast
    with "0.prems" show ?thesis by simp
  qed simp
  then show ?case
    by (subst AddCABytes.simps) (simp add: add_from_bytes_Nil)
next
  case (Suc n)
  show ?case
  proof (cases "pem_Decode e d")
    case None
    then show ?thesis by (subst AddCABytes.simps) (simp add: add_from_bytes_Nil)
  next
    case (Some br)
    obtain b rest where br: "br = (b, rest)" by (cases br)
    with Some Suc.prems have short: "length rest \<le> n"
      by (fastforce simp add: decoder_shrinks_def)
    note IH = Suc.IH [OF Suc.prems(1) short]
    show ?thesis
    proof (cases "block_Type b = ''CERTIFICATE''")
      case False
      with Some br IH show ?thesis
        by (subst AddCABytes.simps) (simp add: add_from_bytes_skip)
    next
      case True
      show ?thesis
      proof (cases "x509_ParseCertificate e (block_Bytes b)")
        case (Inl err)
        with Some br True show ?thesis
          by (subst AddCABytes.simps) (simp add: add_from_bytes_bad)
      next
        case (Inr c)
        with Some br True IH show ?thesis
          by (subst AddCABytes.simps) (simp add: add_from_bytes_good)
      qed
    qed
  qed
qed

lemma demo_decode_shrinks: "decoder_shrinks demo_decode"
proof -
  have "length (tl (dropWhile P xs)) \<le> length xs" for P and xs :: string
    by (metis length_tl diff_le_self length_dropWhile_le le_trans)
  then show ?thesis
    unfolding decoder_shrinks_def demo_decode_def
    by (auto split: list.splits if_splits simp add: le_imp_less_Suc less_SucI simp del: length_tl)
qed

lemma demo_env_fields:
  "pem_Decode demo_env = demo_decode"
  "x509_ParseCertificate demo_env = demo_parse"
  "filepath_Join demo_env d n = d @ ''/'' @ n"
  by (simp_all add: demo_env_def)

lemma demo_env_ReadFile:
  "os_ReadFile demo_env ''ca/a.crt'' = Inr ''C:rootA;''"
  "os_ReadFile demo_env ''ca/b.pem'' = Inr ''K:key;C:rootB;''"
  "os_ReadFile demo_env ''mixed/ROOT.CRT'' = Inr ''C:rootD;''"
  "os_ReadFile demo_env ''mixed/x.pem'' = Inr ''C:!broken;''"
  by (simp_all add: demo_env_def)

lemma demo_env_ReadDir:
  "os_ReadDir demo_env ''ca'' =
     Inr [DirEntry ''a.crt'' Regular, DirEntry ''b.pem'' Regular,
          DirEntry ''c.txt'' Regular, DirEntry ''d'' Directory]"
  "os_ReadDir demo_env ''mixed'' =
     Inr [DirEntry ''link.pem'' Symlink, DirEntry ''ROOT.CRT'' Regular,
          DirEntry ''x.pem'' Regular, DirEntry ''y.crt'' Regular]"
  "os_ReadDir demo_env ''nowhere'' = Inl (LibError ''no such file or directory'')"
  by (simp_all add: demo_env_def)

lemma AddCABytes_demo:
  "AddCABytes demo_env d s =
     Some (add_from_bytes demo_env (pem_blocks demo_decode (length d) d) s)"
  using AddCABytes_fuel [of demo_env d "length d" s] demo_decode_shrinks
  by (simp add: demo_env_fields)




subsection \<open>Adding certificates from a directory\<close>

lemma Ext_scan_dot:
  "\<forall>c\<in>set pre. c \<noteq> CHR ''.'' \<and> c \<noteq> CHR ''/'' \<Longrightarrow>
   Ext_scan (pre @ CHR ''.'' # rest) acc = CHR ''.'' # rev pre @ acc"
  by (induction pre arbitrary: acc) auto

lemma Ext_scan_nonempty:
  "Ext_scan xs acc \<noteq> [] \<Longrightarrow>
   \<exists>pre rest. xs = pre @ CHR ''.'' # rest \<and> (\<forall>c\<in>set pre. c \<noteq> CHR ''.'' \<and> c \<noteq> CHR ''/'') \<and>
              Ext_scan xs acc = CHR ''.'' # rev pre @ acc"
proof (induction xs arbitrary: acc)
  case Nil
  then show ?case by simp
next
  case (Cons c cs)
  show ?case
  proof (cases "c = CHR ''/''")
    case True
    with Cons.prems show ?thesis by simp
  next
    case notsep: False
    show ?thesis
    proof (cases "c = CHR ''.''")
      case True
      then have "c # cs = [] @ CHR ''.'' # cs \<and> Ext_scan (c # cs) acc = CHR ''.'' # rev [] @ acc"
        by simp
      then show ?thesis by (metis empty_iff list.set(1))
    next
      case False
      with notsep Cons.prems have "Ext_scan cs (c # acc) \<noteq> []" by simp
      from Cons.IH [OF this] obtain pre rest where
        *: "cs = pre @ CHR ''.'' # rest" "\<forall>c\<in>set pre. c \<noteq> CHR ''.'' \<and> c \<noteq> CHR ''/''"
           "Ext_scan cs (c # acc) = CHR ''.'' # rev pre @ c # acc"
        by blast
      with False notsep have "c # cs = (c # pre) @ CHR ''.'' # rest \<and>
          (\<forall>x\<in>set (c # pre). x \<noteq> CHR ''.'' \<and> x \<noteq> CHR ''/'') \<and>
          Ext_scan (c # cs) acc = CHR ''.'' # rev (c # pre) @ acc"
        by simp
      then show ?thesis by blast
    qed
  qed
qed

lemma lower_char_dot: "lower_char c = CHR ''.'' \<longleftrightarrow> c = CHR ''.''"
  by (simp add: lower_char_def)

lemma lower_char_letter:
  "lower_char c \<in> {CHR ''c'', CHR ''r'', CHR ''t'', CHR ''p'', CHR ''e'', CHR ''m''} \<Longrightarrow>
   c \<noteq> CHR ''.'' \<and> c \<noteq> CHR ''/''"
  by (auto simp add: lower_char_def)

lemma Ext_suffix:
  assumes "\<forall>c\<in>set x. c \<in> {CHR ''c'', CHR ''r'', CHR ''t'', CHR ''p'', CHR ''e'', CHR ''m''}"
  shows "ToLower (Ext name) = CHR ''.'' # x \<longleftrightarrow> has_suffix_ci (CHR ''.'' # x) name"
proof
  assume low: "ToLower (Ext name) = CHR ''.'' # x"
  then have "Ext_scan (rev name) [] \<noteq> []"
    by (auto simp add: Ext_def ToLower_def)
  from Ext_scan_nonempty [OF this] obtain pre rest where
    *: "rev name = pre @ CHR ''.'' # rest" "Ext_scan (rev name) [] = CHR ''.'' # rev pre @ []"
    by blast
  from *(1) have name: "name = rev rest @ CHR ''.'' # rev pre"
    by (metis rev_rev_ident rev_append rev.simps(2) append.assoc append_Cons append_Nil)
  from * have ext: "Ext name = CHR ''.'' # rev pre" by (simp add: Ext_def)
  with low have len: "length x = length pre"
    by (metis ToLower_def length_map length_rev list.inject list.simps(9))
  show "has_suffix_ci (CHR ''.'' # x) name"
    using low ext len by (simp add: has_suffix_ci_def name)
next
  assume suf: "has_suffix_ci (CHR ''.'' # x) name"
  define tail where "tail = drop (length name - length (CHR ''.'' # x)) name"
  from suf have low: "ToLower tail = CHR ''.'' # x" and le: "length (CHR ''.'' # x) \<le> length name"
    by (simp_all add: has_suffix_ci_def tail_def)
  from low obtain d y where tail: "tail = d # y" and d: "lower_char d = CHR ''.''"
    and y: "map lower_char y = x"
    by (auto simp add: ToLower_def)
  from d have d': "d = CHR ''.''" by (simp add: lower_char_dot)
  have clean: "\<forall>c\<in>set y. c \<noteq> CHR ''.'' \<and> c \<noteq> CHR ''/''"
  proof
    fix c assume "c \<in> set y"
    with y have "lower_char c \<in> set x" by auto
    with assms have "lower_char c \<in> {CHR ''c'', CHR ''r'', CHR ''t'', CHR ''p'', CHR ''e'', CHR ''m''}"
      by blast
    then show "c \<noteq> CHR ''.'' \<and> c \<noteq> CHR ''/''" by (rule lower_char_letter)
  qed
  have "name = take (length name - length (CHR ''.'' # x)) name @ tail"
    by (simp add: tail_def)
  with tail d' have "rev name = rev y @ CHR ''.'' # rev (take (length name - length (CHR ''.'' # x)) name)"
    by (metis rev_append rev.simps(2) append.assoc append_Cons append_Nil)
  then have "Ext name = CHR ''.'' # rev (rev y) @ []"
    using Ext_scan_dot [of "rev y"] clean by (simp add: Ext_def)
  with tail d' low show "ToLower (Ext name) = CHR ''.'' # x" by simp
qed

lemma selected_is_ca_file:
  "(IsRegular (entry_Type en) \<and>
    (ToLower (Ext (entry_Name en)) = ''.crt'' \<or> ToLower (Ext (entry_Name en)) = ''.pem'')) \<longleftrightarrow>
   is_ca_file en"
  using Ext_suffix [of "''crt''" "entry_Name en"] Ext_suffix [of "''pem''" "entry_Name en"]
  by (simp add: is_ca_file_def IsRegular_def)

lemma AddCADir_entries_spec:
  "AddCADir_entries e dir entries s = add_from_directory e dir entries s"
proof (induction entries arbitrary: s)
  case Nil
  show ?case by (simp add: add_from_directory_def)
next
  case (Cons en entries)
  show ?case
  proof (cases "is_ca_file en")
    case True
    then have sel: "IsRegular (entry_Type en)"
      "ToLower (Ext (entry_Name en)) = ''.crt'' \<or> ToLower (Ext (entry_Name en)) = ''.pem''"
      using selected_is_ca_file [of en] by blast+
    from True sel show ?thesis
      using Cons.IH
      by (auto simp add: add_from_directory_def Let_def split: option.splits)
  next
    case False
    then have "\<not> (IsRegular (entry_Type en) \<and>
      (ToLower (Ext (entry_Name en)) = ''.crt'' \<or> ToLower (Ext (entry_Name en)) = ''.pem''))"
      using selected_is_ca_file [of en] by blast
    with False show ?thesis
      using Cons.IH by (auto simp add: add_from_directory_def Let_def)
  qed
qed

lemma AddCAFile_returns:
  "decoder_shrinks (pem_Decode e) \<Longrightarrow> \<exists>r. AddCAFile e p s = Some r"
  using AddCABytes_fuel [OF _ le_refl, of e _ s]
  by (auto simp add: AddCAFile_def split: sum.splits)

lemma add_files_returns:
  "decoder_shrinks (pem_Decode e) \<Longrightarrow> \<exists>r. add_files e ps s = Some r"
proof (induction ps arbitrary: s)
  case Nil
  show ?case by simp
next
  case (Cons p ps)
  from AddCAFile_returns [OF Cons.prems] obtain r where r: "AddCAFile e p s = Some r"
    by blast
  show ?case
  proof (cases "fst r")
    case None
    with r Cons.IH [OF Cons.prems, of "snd r"] show ?thesis
      by (cases r) auto
  next
    case (Some err)
    with r show ?thesis by (cases r) auto
  qed
qed

text \<open>
  Claim C6. \<^verbatim>\<open>AddCADir\<close> on a directory that can be read does what adding from a
  directory is to do on its entries: it loads the regular files whose name ends in
  \<^verbatim>\<open>.crt\<close> or \<^verbatim>\<open>.pem\<close> in any case of the letters, in the order of the entries, and no
  other entry (a subdirectory is not a regular file and is never read); the first file
  that fails to load ends the call with an error carrying that file's path. With a
  decoder whose rest is shorter than its input the call returns.
\<close>

theorem AddCADir_adds_from_directory:
  "(dir = [] \<longrightarrow> AddCADir e dir s = Some (None, s)) \<and>
   (dir \<noteq> [] \<and> os_ReadDir e dir = Inl err \<longrightarrow>
      AddCADir e dir s = Some (Some (ErrReadCADir dir err), s)) \<and>
   (dir \<noteq> [] \<and> os_ReadDir e dir = Inr entries \<longrightarrow>
      AddCADir e dir s = add_from_directory e dir entries s) \<and>
   (decoder_shrinks (pem_Decode e) \<longrightarrow> (\<exists>r. AddCADir e dir s = Some r))"
proof -
  have returns: "decoder_shrinks (pem_Decode e) \<longrightarrow> (\<exists>r. AddCADir e dir s = Some r)"
    using add_files_returns [of e _ s]
    by (auto simp add: AddCADir_def AddCADir_entries_spec add_from_directory_def
        split: sum.splits)
  then show ?thesis
    by (simp add: AddCADir_def AddCADir_entries_spec)
qed

theorem AddCADir_adds_from_directory_witness:
  "os_ReadDir demo_env ''ca'' =
     Inr [DirEntry ''a.crt'' Regular, DirEntry ''b.pem'' Regular,
          DirEntry ''c.txt'' Regular, DirEntry ''d'' Directory] \<and>
   decoder_shrinks (pem_Decode demo_env) \<and>
   filter is_ca_file [DirEntry ''a.crt'' Regular, DirEntry ''b.pem'' Regular,
                      DirEntry ''c.txt'' Regular, DirEntry ''d'' Directory] =
     [DirEntry ''a.crt'' Regular, DirEntry ''b.pem'' Regular] \<and>
   map_option (\<lambda>r. (fst r, pools (snd r) 0)) (AddCADir demo_env ''ca'' (empty_world [])) =
     Some (None, [''rootA'', ''rootB'']) \<and>
   map_option (\<lambda>r. (fst r, pools (snd r) 0)) (AddCADir demo_env ''mixed'' (empty_world [])) =
     Some (Some (ErrLoadCA ''mixed/x.pem''
                   (ErrParseCert (LibError ''x509: malformed certificate''))),
           [''rootD'']) \<and>
   AddCADir demo_env ''nowhere'' (empty_world []) =
     Some (Some (ErrReadCADir ''nowhere'' (LibError ''no such file or directory'')),
           empty_world [])"
  using AddCADir_adds_from_directory [where e = demo_env and dir = "''ca''"
      and s = "empty_world []"
      and entries = "[DirEntry ''a.crt'' Regular, DirEntry ''b.pem'' Regular,
                      DirEntry ''c.txt'' Regular, DirEntry ''d'' Directory]"]
    AddCADir_adds_from_directory [where e = demo_env and dir = "''mixed''"
      and s = "empty_world []"
      and entries = "[DirEntry ''link.pem'' Symlink, DirEntry ''ROOT.CRT'' Regular,
                      DirEntry ''x.pem'' Regular, DirEntry ''y.crt'' Regular]"]
    AddCADir_adds_from_directory [where e = demo_env and dir = "''nowhere''"
      and s = "empty_world []" and err = "LibError ''no such file or directory''"]
    demo_decode_shrinks
  by (simp add: demo_env_ReadDir add_from_directory_def is_ca_file_def has_suffix_ci_def
      ToLower_def lower_char_def demo_env_fields AddCAFile_def demo_env_ReadFile
      AddCABytes_demo demo_decode_def add_from_bytes_def demo_parse_def pool_add_def
      empty_world_def)

subsection \<open>When producing a server configuration panics\<close>

lemma demo_env_Load:
  "tls_LoadX509KeyPair demo_env ''certs/server.crt'' ''certs/server.key'' =
     Inr (KeyPair [''leaf1''] ''key1'')"
  by (simp add: demo_env_def)

text \<open>
  Claim C3 says that \<^verbatim>\<open>ForServer\<close> panics exactly when no credential source was
  configured. It fails in both directions: on a fresh builder, with no source,
  \<^verbatim>\<open>ForServer\<close> returns; on a builder whose files are set but cannot be loaded, it panics.
\<close>

theorem server_config_panic_counterexample:
  "no_credential_source (empty_world []) \<and>
   \<not> is_Panics (ForServer demo_env (empty_world [])) \<and>
   \<not> no_credential_source files_world \<and>
   is_Panics (ForServer broken_env files_world)"
  by (simp add: no_credential_source_def files_world_eq empty_world_def ForServer_def
      new_config_def injectServerCert_def reloadCert_def broken_env_load)

text \<open>
  Claim C3, as the code has it. \<^verbatim>\<open>ForServer\<close> panics exactly when the cell is empty, both
  file names are set and loading the pair from them fails; the panic carries the load
  error. With an empty cell and files that load, it stores the pair and returns a
  configuration carrying it; with a pair in the cell it returns a configuration carrying
  that pair; with an empty cell and a file name missing it returns a configuration with
  no certificate, starts no monitor and does not panic. \<^verbatim>\<open>GetTLSConfig\<close> of the older
  \<^verbatim>\<open>TLS\<close> type panics under the same condition.
\<close>

theorem server_config_panics_iff_load_fails:
  "(is_Panics (ForServer e s) \<longleftrightarrow>
      cert (tb s) = None \<and> certFile (tb s) \<noteq> [] \<and> keyFile (tb s) \<noteq> [] \<and>
      isl (tls_LoadX509KeyPair e (certFile (tb s)) (keyFile (tb s)))) \<and>
   (cert (tb s) = None \<and> certFile (tb s) \<noteq> [] \<and> keyFile (tb s) \<noteq> [] \<and>
    tls_LoadX509KeyPair e (certFile (tb s)) (keyFile (tb s)) = Inl err \<longrightarrow>
      ForServer e s = Panics (ErrServerCertLoad err)) \<and>
   (cert (tb s) = None \<and> certFile (tb s) \<noteq> [] \<and> keyFile (tb s) \<noteq> [] \<and>
    tls_LoadX509KeyPair e (certFile (tb s)) (keyFile (tb s)) = Inr c \<longrightarrow>
      (\<exists>s'. ForServer e s = Returns (next_config s, s') \<and> cert (tb s') = Some c \<and>
            map_option Certificates (configs s' (next_config s)) = Some [c])) \<and>
   (cert (tb s) = Some c \<longrightarrow>
      (\<exists>s'. ForServer e s = Returns (next_config s, s') \<and> cert (tb s') = Some c \<and>
            map_option Certificates (configs s' (next_config s)) = Some [c])) \<and>
   (cert (tb s) = None \<and> (certFile (tb s) = [] \<or> keyFile (tb s) = []) \<longrightarrow>
      (\<exists>s'. ForServer e s = Returns (next_config s, s') \<and> cert (tb s') = None \<and>
            watcher (tb s') = watcher (tb s) \<and>
            map_option Certificates (configs s' (next_config s)) = Some [])) \<and>
   (is_Panics (TLS_GetTLSConfig e t) \<longleftrightarrow>
      tls_cert (tw_tls t) = None \<and> tls_certFile (tw_tls t) \<noteq> [] \<and>
      tls_keyFile (tw_tls t) \<noteq> [] \<and>
      isl (tls_LoadX509KeyPair e (tls_certFile (tw_tls t)) (tls_keyFile (tw_tls t))))"
proof -
  have p: "is_Panics (ForServer e s) \<longleftrightarrow>
      cert (tb s) = None \<and> certFile (tb s) \<noteq> [] \<and> keyFile (tb s) \<noteq> [] \<and>
      isl (tls_LoadX509KeyPair e (certFile (tb s)) (keyFile (tb s)))"
    by (auto simp add: ForServer_def new_config_def injectServerCert_def reloadCert_def
        split: sum.splits option.splits)
  have q: "cert (tb s) = None \<and> certFile (tb s) \<noteq> [] \<and> keyFile (tb s) \<noteq> [] \<and>
    tls_LoadX509KeyPair e (certFile (tb s)) (keyFile (tb s)) = Inl err \<longrightarrow>
      ForServer e s = Panics (ErrServerCertLoad err)"
    by (simp add: ForServer_def new_config_def injectServerCert_def reloadCert_def)
  have sw: "\<And>e s. cert (tb (startWatcher e s)) = cert (tb s) \<and> configs (startWatcher e s) = configs s"
    by (simp add: startWatcher_def Let_def split: option.splits)
  have r: "cert (tb s) = None \<and> certFile (tb s) \<noteq> [] \<and> keyFile (tb s) \<noteq> [] \<and>
    tls_LoadX509KeyPair e (certFile (tb s)) (keyFile (tb s)) = Inr c \<longrightarrow>
      (\<exists>s'. ForServer e s = Returns (next_config s, s') \<and> cert (tb s') = Some c \<and>
            map_option Certificates (configs s' (next_config s)) = Some [c])"
    by (simp add: ForServer_def new_config_def injectServerCert_def reloadCert_def sw
        set_Certificates_def)
  have u: "cert (tb s) = Some c \<longrightarrow>
      (\<exists>s'. ForServer e s = Returns (next_config s, s') \<and> cert (tb s') = Some c \<and>
            map_option Certificates (configs s' (next_config s)) = Some [c])"
    by (simp add: ForServer_def new_config_def injectServerCert_def reloadCert_def sw
        set_Certificates_def)
  have v: "cert (tb s) = None \<and> (certFile (tb s) = [] \<or> keyFile (tb s) = []) \<longrightarrow>
      (\<exists>s'. ForServer e s = Returns (next_config s, s') \<and> cert (tb s') = None \<and>
            watcher (tb s') = watcher (tb s) \<and>
            map_option Certificates (configs s' (next_config s)) = Some [])"
    by (auto simp add: ForServer_def new_config_def injectServerCert_def reloadCert_def)
  have w: "is_Panics (TLS_GetTLSConfig e t) \<longleftrightarrow>
      tls_cert (tw_tls t) = None \<and> tls_certFile (tw_tls t) \<noteq> [] \<and>
      tls_keyFile (tw_tls t) \<noteq> [] \<and>
      isl (tls_LoadX509KeyPair e (tls_certFile (tw_tls t)) (tls_keyFile (tw_tls t)))"
    by (auto simp add: TLS_GetTLSConfig_def TLS_reloadCert_def Let_def
        split: sum.splits option.splits)
  from p q r u v w show ?thesis by blast
qed

theorem server_config_panics_iff_load_fails_witness:
  "ForServer broken_env files_world =
     Panics (ErrServerCertLoad (LibError ''tls: failed to find any PEM data'')) \<and>
   is_Panics (ForServer broken_env files_world) \<and>
   \<not> is_Panics (ForServer demo_env files_world) \<and>
   \<not> is_Panics (ForServer broken_env served_world) \<and>
   \<not> is_Panics (ForServer broken_env (empty_world [])) \<and>
   cert (tb files_world) = None \<and> certFile (tb files_world) = ''certs/server.crt'' \<and>
   tls_LoadX509KeyPair demo_env ''certs/server.crt'' ''certs/server.key'' =
     Inr (KeyPair [''leaf1''] ''key1'') \<and>
   cert (tb served_world) = Some (KeyPair [''leaf1''] ''key1'') \<and>
   is_Panics (TLS_GetTLSConfig broken_env (new_tls_world ''certs/server.crt'' ''certs/server.key'')) \<and>
   \<not> is_Panics (TLS_GetTLSConfig broken_env (new_tls_world [] []))"
  using server_config_panics_iff_load_fails
      [where e = broken_env and s = files_world
         and err = "LibError ''tls: failed to find any PEM data''"
         and t = "new_tls_world ''certs/server.crt'' ''certs/server.key''"]
    server_config_panics_iff_load_fails
      [where e = demo_env and s = files_world and c = "KeyPair [''leaf1''] ''key1''"
         and t = "new_tls_world [] []"]
    server_config_panics_iff_load_fails
      [where e = broken_env and s = served_world and c = "KeyPair [''leaf1''] ''key1''"
         and t = "new_tls_world [] []"]
    server_config_panics_iff_load_fails
      [where e = broken_env and s = "empty_world []" and t = "new_tls_world [] []"]
  by (simp add: files_world_eq served_world_tb empty_world_def broken_env_load new_tls_world_def
      demo_env_Load)

end
